theory Spec2Isabelle
  imports Main "HOL-Library.Word"
begin

section \<open>Outcomes of a call\<close>

text \<open>
  Every \<^verbatim>\<open>throw\<close> of \<^verbatim>\<open>Certificate.cpp\<close> raises
  \<^verbatim>\<open>std::runtime_error\<close> with a fixed message; the message is what tells the
  throw sites apart. A call either returns, throws, or does something the language leaves
  undefined (a write past the capacity of a buffer, \<^verbatim>\<open>front()\<close> of an empty vector,
  handing out bytes that were never written).
\<close>

type_synonym byte = "8 word"

datatype exn = runtime_error string

datatype 'a result = Return 'a | Throw exn | Undefined

definition and_then :: "'a result \<Rightarrow> ('a \<Rightarrow> 'b result) \<Rightarrow> 'b result" where
  "and_then r f = (case r of Return x \<Rightarrow> f x | Throw e \<Rightarrow> Throw e | Undefined \<Rightarrow> Undefined)"

section \<open>The buffer: \<^verbatim>\<open>folly::IOBuf\<close> as the two functions use it\<close>

text \<open>
  \<^verbatim>\<open>IOBuf::create(capacity)\<close> allocates \<^verbatim>\<open>capacity\<close> bytes that hold nothing yet and
  sets the length to zero; \<^verbatim>\<open>append(amount)\<close> moves the end of the data forward over
  the tail room; \<^verbatim>\<open>writableData()\<close> is the address of the first byte. A cell is
  \<open>None\<close> until something is written to it. The capacity is the one asked for.
\<close>

record IOBuf =
  storage :: "byte option list"
  len :: nat

definition IOBuf_create :: "nat \<Rightarrow> IOBuf" where
  "IOBuf_create capacity = \<lparr>storage = replicate capacity None, len = 0\<rparr>"

definition IOBuf_append :: "nat \<Rightarrow> IOBuf \<Rightarrow> IOBuf result" where
  "IOBuf_append amount b =
     (if len b + amount \<le> length (storage b) then Return (b\<lparr>len := len b + amount\<rparr>)
      else Undefined)"

text \<open>\<^verbatim>\<open>memset(buf->writableData() + offset, c, n)\<close>\<close>

definition memset_at :: "IOBuf \<Rightarrow> nat \<Rightarrow> byte \<Rightarrow> nat \<Rightarrow> IOBuf result" where
  "memset_at b offset c n =
     (if offset + n \<le> length (storage b)
      then Return (b\<lparr>storage :=
             take offset (storage b) @ replicate n (Some c) @ drop (offset + n) (storage b)\<rparr>)
      else Undefined)"

text \<open>\<^verbatim>\<open>memcpy(buf->writableData() + offset, src.data(), src.size())\<close>\<close>

definition memcpy_at :: "IOBuf \<Rightarrow> nat \<Rightarrow> byte list \<Rightarrow> IOBuf result" where
  "memcpy_at b offset src =
     (if offset + length src \<le> length (storage b)
      then Return (b\<lparr>storage :=
             take offset (storage b) @ map Some src @ drop (offset + length src) (storage b)\<rparr>)
      else Undefined)"

text \<open>The bytes a finished buffer hands to its reader: the first \<open>len\<close> cells.\<close>

definition IOBuf_bytes :: "IOBuf \<Rightarrow> byte list result" where
  "IOBuf_bytes b =
     (let cells = take (len b) (storage b)
      in if list_all (\<lambda>c. c \<noteq> None) cells then Return (map the cells) else Undefined)"

section \<open>\<^verbatim>\<open>CertUtils::prepareSignData\<close>\<close>

datatype CertificateVerifyContext = Server | Client

definition kServerLabel :: string where
  "kServerLabel = ''TLS 1.3, server CertificateVerify''"

definition kClientLabel :: string where
  "kClientLabel = ''TLS 1.3, client CertificateVerify''"

definition kSigPrefixLen :: nat where
  "kSigPrefixLen = 64"

definition kSigPrefix :: byte where
  "kSigPrefix = 32"

text \<open>The characters of a \<^verbatim>\<open>StringPiece\<close> as the bytes \<^verbatim>\<open>memcpy\<close> copies.\<close>

definition string_bytes :: "string \<Rightarrow> byte list" where
  "string_bytes s = map of_char s"

text \<open>
  Sizes are natural numbers: a \<^verbatim>\<open>ByteRange\<close> lies inside the address space that
  also holds the program, so \<^verbatim>\<open>sigDataLen\<close> stays below \<open>2 ^ 64\<close>.
\<close>

definition prepareSignData :: "CertificateVerifyContext \<Rightarrow> byte list \<Rightarrow> byte list result" where
  "prepareSignData context toBeSigned =
     (let label = (if context = Server then kServerLabel else kClientLabel);
          sigDataLen = kSigPrefixLen + length label + 1 + length toBeSigned;
          buf = IOBuf_create sigDataLen
      in and_then (IOBuf_append sigDataLen buf) (\<lambda>buf.
         let offset = 0
         in and_then (memset_at buf offset kSigPrefix kSigPrefixLen) (\<lambda>buf.
         let offset = offset + kSigPrefixLen
         in and_then (memcpy_at buf offset (string_bytes label)) (\<lambda>buf.
         let offset = offset + length label
         in and_then (memset_at buf offset 0 1) (\<lambda>buf.
         let offset = offset + 1
         in and_then (memcpy_at buf offset toBeSigned) (\<lambda>buf.
         IOBuf_bytes buf))))))"

section \<open>The cryptographic library\<close>

text \<open>
  The calls into OpenSSL and folly that \<^verbatim>\<open>Certificate.cpp\<close> makes, as the
  functions the code sees. The type variables are the handles
  (\<^verbatim>\<open>X509*\<close>, \<^verbatim>\<open>EVP_PKEY*\<close>, \<^verbatim>\<open>EC_KEY*\<close>, \<^verbatim>\<open>EC_GROUP*\<close>, \<^verbatim>\<open>BIO*\<close>);
  a null pointer returned by the library is \<open>None\<close>.
  \<^item> \<open>i2d_X509_len x\<close> is \<^verbatim>\<open>i2d_X509(x, nullptr)\<close>: the length, negative on error.
  \<^item> \<open>i2d_X509_out x\<close> is \<^verbatim>\<open>i2d_X509(x, &dataPtr)\<close>: \<open>None\<close> when it returns a
    negative value, else the bytes it wrote at \<^verbatim>\<open>dataPtr\<close>, whose number it returns.
  \<^item> \<open>d2i_X509 bytes\<close> is \<^verbatim>\<open>d2i_X509(nullptr, &begin, size)\<close>: the certificate and
    how far \<^verbatim>\<open>begin\<close> moved.
  \<^item> \<open>readCertsFromBuffer\<close> is folly's \<^verbatim>\<open>OpenSSLCertUtils::readCertsFromBuffer\<close>,
    which may throw by itself.
  \<^item> \<open>BIO_new_mem_buf data n\<close> gets the string's bytes and its size as an \<^verbatim>\<open>int\<close>.
\<close>

record ('x509, 'pkey, 'eckey, 'group, 'bio) openssl =
  i2d_X509_len :: "'x509 \<Rightarrow> int"
  i2d_X509_out :: "'x509 \<Rightarrow> byte list option"
  d2i_X509 :: "byte list \<Rightarrow> ('x509 \<times> nat) option"
  X509_get_pubkey :: "'x509 \<Rightarrow> 'pkey option"
  EVP_PKEY_id :: "'pkey \<Rightarrow> int"
  EVP_PKEY_get0_EC_KEY :: "'pkey \<Rightarrow> 'eckey option"
  EC_KEY_get0_group :: "'eckey \<Rightarrow> 'group"
  EC_GROUP_get_curve_name :: "'group \<Rightarrow> int"
  readCertsFromBuffer :: "string \<Rightarrow> exn + 'x509 list"
  BIO_new_mem_buf :: "string \<Rightarrow> int \<Rightarrow> 'bio option"
  PEM_read_bio_PrivateKey :: "'bio \<Rightarrow> 'pkey option"

text \<open>The identifiers of OpenSSL's \<^verbatim>\<open>obj_mac.h\<close> and \<^verbatim>\<open>evp.h\<close> that the code names.\<close>

definition EVP_PKEY_RSA :: int where
  "EVP_PKEY_RSA = 6"

definition EVP_PKEY_EC :: int where
  "EVP_PKEY_EC = 408"

definition NID_X9_62_prime256v1 :: int where
  "NID_X9_62_prime256v1 = 415"

definition NID_secp384r1 :: int where
  "NID_secp384r1 = 715"

definition NID_secp521r1 :: int where
  "NID_secp521r1 = 716"

definition getCurveName :: "('x509, 'pkey, 'eckey, 'group, 'bio) openssl \<Rightarrow> 'pkey \<Rightarrow> int" where
  "getCurveName L key =
     (case EVP_PKEY_get0_EC_KEY L key of
        Some ecKey \<Rightarrow> EC_GROUP_get_curve_name L (EC_KEY_get0_group L ecKey)
      | None \<Rightarrow> 0)"

section \<open>\<^verbatim>\<open>CertUtils::getCertMessage\<close>\<close>

record Extension =
  extension_type :: "16 word"
  extension_data :: "byte list"

record CertificateEntry =
  cert_data :: "byte list"
  extensions :: "Extension list"

record CertificateMsg =
  certificate_request_context :: "byte list"
  certificate_list :: "CertificateEntry list"

text \<open>The body of the loop: one certificate into one entry.\<close>

definition getCertMessage_entry ::
  "('x509, 'pkey, 'eckey, 'group, 'bio) openssl \<Rightarrow> 'x509 \<Rightarrow> CertificateEntry result" where
  "getCertMessage_entry L cert =
     (let len1 = i2d_X509_len L cert
      in if len1 < 0 then Throw (runtime_error ''Error computing length'')
         else
           let buf = IOBuf_create (nat len1)
           in case i2d_X509_out L cert of
                None \<Rightarrow> Throw (runtime_error ''Error converting cert to DER'')
              | Some written \<Rightarrow>
                  and_then (memcpy_at buf 0 written) (\<lambda>buf.
                  and_then (IOBuf_append (length written) buf) (\<lambda>buf.
                  and_then (IOBuf_bytes buf) (\<lambda>data.
                  Return \<lparr>cert_data = data, extensions = []\<rparr>))))"

text \<open>The loop: \<open>entries\<close> is the vector built so far, \<^verbatim>\<open>push_back\<close> adds at its end.\<close>

fun getCertMessage_loop ::
  "('x509, 'pkey, 'eckey, 'group, 'bio) openssl \<Rightarrow> 'x509 list \<Rightarrow> CertificateEntry list
     \<Rightarrow> CertificateEntry list result" where
  "getCertMessage_loop L [] entries = Return entries"
| "getCertMessage_loop L (cert # rest) entries =
     (case getCertMessage_entry L cert of
        Return entry \<Rightarrow> getCertMessage_loop L rest (entries @ [entry])
      | Throw e \<Rightarrow> Throw e
      | Undefined \<Rightarrow> Undefined)"

definition getCertMessage ::
  "('x509, 'pkey, 'eckey, 'group, 'bio) openssl \<Rightarrow> 'x509 list \<Rightarrow> byte list
     \<Rightarrow> CertificateMsg result" where
  "getCertMessage L certs certificateRequestContext =
     and_then (getCertMessage_loop L certs []) (\<lambda>entries.
     Return \<lparr>certificate_request_context = certificateRequestContext,
             certificate_list = entries\<rparr>)"

section \<open>\<^verbatim>\<open>CertUtils::makePeerCert\<close>\<close>

datatype KeyType = RSA | P256 | P384 | P521

text \<open>\<^verbatim>\<open>PeerCertImpl<T>(cert)\<close>: the key type is the template argument.\<close>

datatype 'x509 PeerCert = PeerCertImpl KeyType 'x509

text \<open>A line of the verbose log: the level of \<^verbatim>\<open>VLOG\<close> and the message.\<close>

type_synonym diagnostic = "nat \<times> string"

definition makePeerCert ::
  "('x509, 'pkey, 'eckey, 'group, 'bio) openssl \<Rightarrow> byte list
     \<Rightarrow> diagnostic list \<times> 'x509 PeerCert result" where
  "makePeerCert L certData =
     (if certData = [] then ([], Throw (runtime_error ''empty peer cert''))
      else
        case d2i_X509 L certData of
          None \<Rightarrow> ([], Throw (runtime_error ''could not read cert''))
        | Some (cert, consumed) \<Rightarrow>
            (if consumed \<noteq> length certData
             then [(1, ''Did not read to end of certificate'')] else [],
             case X509_get_pubkey L cert of
               None \<Rightarrow> Throw (runtime_error ''couldn't get pubkey from peer cert'')
             | Some pubKey \<Rightarrow>
                 if EVP_PKEY_id L pubKey = EVP_PKEY_RSA then Return (PeerCertImpl RSA cert)
                 else if EVP_PKEY_id L pubKey = EVP_PKEY_EC then
                   (let curve = getCurveName L pubKey
                    in if curve = NID_X9_62_prime256v1 then Return (PeerCertImpl P256 cert)
                       else if curve = NID_secp384r1 then Return (PeerCertImpl P384 cert)
                       else if curve = NID_secp521r1 then Return (PeerCertImpl P521 cert)
                       else Throw (runtime_error ''unknown peer cert type''))
                 else Throw (runtime_error ''unknown peer cert type'')))"

section \<open>\<^verbatim>\<open>CertUtils::makeSelfCert\<close>\<close>

text \<open>\<^verbatim>\<open>SelfCertImpl<T>(key, certs)\<close>\<close>

datatype ('x509, 'pkey) SelfCert = SelfCertImpl KeyType 'pkey "'x509 list"

text \<open>
  The overload that takes the parsed chain and the key. \<^verbatim>\<open>certs.front()\<close> is the
  first thing it evaluates; on an empty vector that is undefined.
\<close>

definition makeSelfCert ::
  "('x509, 'pkey, 'eckey, 'group, 'bio) openssl \<Rightarrow> 'x509 list \<Rightarrow> 'pkey
     \<Rightarrow> ('x509, 'pkey) SelfCert result" where
  "makeSelfCert L certs key =
     (case certs of
        [] \<Rightarrow> Undefined
      | front # _ \<Rightarrow>
          (case X509_get_pubkey L front of
             None \<Rightarrow> Throw (runtime_error ''Failed to read public key'')
           | Some pubKey \<Rightarrow>
               if EVP_PKEY_id L pubKey = EVP_PKEY_RSA then Return (SelfCertImpl RSA key certs)
               else if EVP_PKEY_id L pubKey = EVP_PKEY_EC then
                 (let curve = getCurveName L pubKey
                  in if curve = NID_X9_62_prime256v1 then Return (SelfCertImpl P256 key certs)
                     else if curve = NID_secp384r1 then Return (SelfCertImpl P384 key certs)
                     else if curve = NID_secp521r1 then Return (SelfCertImpl P521 key certs)
                     else Throw (runtime_error ''unknown self cert type''))
               else Throw (runtime_error ''unknown self cert type'')))"

text \<open>
  The overload that takes the two strings. \<^verbatim>\<open>keyData.size()\<close> reaches
  \<^verbatim>\<open>BIO_new_mem_buf\<close> as a 32-bit \<^verbatim>\<open>int\<close>.
\<close>

definition makeSelfCert_data ::
  "('x509, 'pkey, 'eckey, 'group, 'bio) openssl \<Rightarrow> string \<Rightarrow> string
     \<Rightarrow> ('x509, 'pkey) SelfCert result" where
  "makeSelfCert_data L certData keyData =
     (case readCertsFromBuffer L certData of
        Inl e \<Rightarrow> Throw e
      | Inr certs \<Rightarrow>
          if certs = [] then Throw (runtime_error ''no certificates read'')
          else
            (case BIO_new_mem_buf L keyData (sint (word_of_nat (length keyData) :: 32 word)) of
               None \<Rightarrow> Throw (runtime_error ''failed to create BIO'')
             | Some b \<Rightarrow>
                 (case PEM_read_bio_PrivateKey L b of
                    None \<Rightarrow> Throw (runtime_error ''Failed to read key'')
                  | Some key \<Rightarrow> makeSelfCert L certs key)))"

section \<open>A small library to run the code on\<close>

text \<open>
  Handles are numbers. A certificate is the number in its first byte and is two bytes long;
  the encoder fails on certificate 0 at the length and on certificate 9 at the encoding,
  and certificate 8 has no public key. The key of any other certificate is the certificate's
  number: key 2 is an RSA key, keys 3 to 7 are EC keys (3 without an EC key behind it, 4, 5
  and 6 on the three curves the code knows, 7 on another curve), any other key is of
  another family. The certificates read from a string are its characters' codes; no
  memory is left for a key of three characters, and a key is read from any other string
  that is not empty.
\<close>

definition toy_ssl :: "(nat, nat, nat, nat, string) openssl" where
  "toy_ssl = \<lparr>
     i2d_X509_len = (\<lambda>x. if x = 0 then - 1 else 2),
     i2d_X509_out = (\<lambda>x. if x = 0 \<or> x = 9 then None else Some [of_nat x, 0]),
     d2i_X509 = (\<lambda>bytes. case bytes of b # _ # _ \<Rightarrow> Some (unat b, 2) | _ \<Rightarrow> None),
     X509_get_pubkey = (\<lambda>x. if x = 8 then None else Some x),
     EVP_PKEY_id = (\<lambda>k. if k = 2 then 6 else if 3 \<le> k \<and> k \<le> 7 then 408 else 1087),
     EVP_PKEY_get0_EC_KEY = (\<lambda>k. if k = 3 then None else Some k),
     EC_KEY_get0_group = (\<lambda>e. e),
     EC_GROUP_get_curve_name =
       (\<lambda>g. if g = 4 then 415 else if g = 5 then 715 else if g = 6 then 716
            else if g = 7 then 409 else 0),
     readCertsFromBuffer = (\<lambda>s. Inr (map of_char s)),
     BIO_new_mem_buf = (\<lambda>s n. if n < 0 \<or> n = 3 then None else Some s),
     PEM_read_bio_PrivateKey = (\<lambda>b. if b = [] then None else Some (length b))
   \<rparr>"

section \<open>Facts about the buffer\<close>

lemma and_then_Return [simp]: "and_then (Return x) f = f x"
  by (simp add: and_then_def)

lemma and_then_Throw [simp]: "and_then (Throw e) f = Throw e"
  by (simp add: and_then_def)

lemma and_then_Undefined [simp]: "and_then Undefined f = Undefined"
  by (simp add: and_then_def)

lemma IOBuf_bytes_written:
  "storage b = map Some bs @ rest \<Longrightarrow> len b = length bs \<Longrightarrow> IOBuf_bytes b = Return bs"
  by (simp add: IOBuf_bytes_def list_all_iff comp_def)

lemma memset_at_fresh:
  "storage b = pre @ replicate k None \<Longrightarrow> offset = length pre \<Longrightarrow> n \<le> k \<Longrightarrow>
   memset_at b offset c n
     = Return (b\<lparr>storage := pre @ replicate n (Some c) @ replicate (k - n) None\<rparr>)"
  by (simp add: memset_at_def)

lemma memcpy_at_fresh:
  "storage b = pre @ replicate k None \<Longrightarrow> offset = length pre \<Longrightarrow> length src \<le> k \<Longrightarrow>
   memcpy_at b offset src
     = Return (b\<lparr>storage := pre @ map Some src @ replicate (k - length src) None\<rparr>)"
  by (simp add: memcpy_at_def)

text \<open>
  The sum that \<^verbatim>\<open>prepareSignData\<close> computes in \<^verbatim>\<open>size_t\<close> is the sum of natural
  numbers as long as that is below \<open>2 ^ 64\<close>, which holds for every range of bytes that
  is in memory together with the program.
\<close>

lemma sigDataLen_no_wrap:
  fixes label :: string and toBeSigned :: "byte list"
  assumes "kSigPrefixLen + length label + 1 + length toBeSigned < 2 ^ 64"
  shows "unat (word_of_nat kSigPrefixLen + word_of_nat (length label) + 1
               + word_of_nat (length toBeSigned) :: 64 word)
         = kSigPrefixLen + length label + 1 + length toBeSigned"
proof -
  define n where "n = kSigPrefixLen + length label + 1 + length toBeSigned"
  have "word_of_nat kSigPrefixLen + word_of_nat (length label) + 1
               + word_of_nat (length toBeSigned) = (word_of_nat n :: 64 word)"
    by (simp add: n_def)
  moreover have "unat (word_of_nat n :: 64 word) = n"
    using assms unfolding n_def [symmetric] by (simp add: unat_of_nat)
  ultimately show ?thesis
    by (simp only: n_def)
qed

lemma prepareSignData_value:
  "prepareSignData context toBeSigned =
     Return (replicate kSigPrefixLen kSigPrefix
             @ string_bytes (if context = Server then kServerLabel else kClientLabel)
             @ [0] @ toBeSigned)"
proof -
  define label where "label = (if context = Server then kServerLabel else kClientLabel)"
  define m where "m = length toBeSigned"
  define n where "n = kSigPrefixLen + length label + 1 + length toBeSigned"
  define pad where "pad = replicate kSigPrefixLen (Some kSigPrefix)"
  define lab where "lab = map Some (string_bytes label)"
  define b1 where "b1 = \<lparr>storage = replicate n (None :: byte option), len = n\<rparr>"
  define b2 where "b2 = b1\<lparr>storage := pad @ replicate (length label + 1 + m) None\<rparr>"
  define b3 where "b3 = b1\<lparr>storage := (pad @ lab) @ replicate (1 + m) None\<rparr>"
  define b4 where "b4 = b1\<lparr>storage := (pad @ lab @ [Some 0]) @ replicate m None\<rparr>"
  define b5 where "b5 = b1\<lparr>storage := pad @ lab @ [Some 0] @ map Some toBeSigned\<rparr>"
  have s0: "IOBuf_append n (IOBuf_create n) = Return b1"
    by (simp add: IOBuf_append_def IOBuf_create_def b1_def)
  have s1: "memset_at b1 0 kSigPrefix kSigPrefixLen = Return b2"
    using memset_at_fresh [of b1 "[]" n 0 kSigPrefixLen kSigPrefix]
    by (simp add: b1_def b2_def n_def m_def pad_def)
  have s2: "memcpy_at b2 kSigPrefixLen (string_bytes label) = Return b3"
    using memcpy_at_fresh [of b2 pad "length label + 1 + m" kSigPrefixLen "string_bytes label"]
    by (simp add: b1_def b2_def b3_def pad_def lab_def string_bytes_def)
  have s3: "memset_at b3 (kSigPrefixLen + length label) 0 1 = Return b4"
    using memset_at_fresh [of b3 "pad @ lab" "1 + m" "kSigPrefixLen + length label" 1 0]
    by (simp add: b1_def b3_def b4_def pad_def lab_def string_bytes_def)
  have s4: "memcpy_at b4 (kSigPrefixLen + length label + 1) toBeSigned = Return b5"
    using memcpy_at_fresh [of b4 "pad @ lab @ [Some 0]" m
        "kSigPrefixLen + length label + 1" toBeSigned]
    by (simp add: b1_def b4_def b5_def pad_def lab_def string_bytes_def m_def)
  have s5: "IOBuf_bytes b5
      = Return (replicate kSigPrefixLen kSigPrefix @ string_bytes label @ [0] @ toBeSigned)"
    by (rule IOBuf_bytes_written [where rest = "[]"])
      (simp_all add: b5_def b1_def n_def pad_def lab_def string_bytes_def)
  have s3': "memset_at b3 (kSigPrefixLen + length label) 0 (Suc 0) = Return b4"
    using s3 by simp
  have s4': "memcpy_at b4 (Suc (kSigPrefixLen + length label)) toBeSigned = Return b5"
    using s4 by simp
  show ?thesis
    unfolding prepareSignData_def Let_def label_def [symmetric] n_def [symmetric]
    by (simp add: s0 s1 s2 s3' s4' s5)
qed

section \<open>The signing context\<close>

text \<open>
  Claim C1. For every byte range \<open>toBeSigned\<close> and both contexts, \<open>prepareSignData\<close>
  returns (it neither throws nor writes out of bounds) a buffer of length
  \<open>64 + length label + 1 + length toBeSigned\<close>, whose first 64 bytes are all \<open>0x20\<close>,
  whose next \<open>length label\<close> bytes are the label of the side
  (\<^verbatim>\<open>TLS 1.3, server CertificateVerify\<close> for \<open>Server\<close>,
  \<^verbatim>\<open>TLS 1.3, client CertificateVerify\<close> otherwise), followed by one \<open>0x00\<close> byte and
  then by \<open>toBeSigned\<close>, byte for byte.
\<close>

theorem prepareSignData_layout:
  "let label = (case context of Server \<Rightarrow> ''TLS 1.3, server CertificateVerify''
                              | Client \<Rightarrow> ''TLS 1.3, client CertificateVerify'')
   in \<exists>buf. prepareSignData context toBeSigned = Return buf
        \<and> length buf = 64 + length label + 1 + length toBeSigned
        \<and> take 64 buf = replicate 64 0x20
        \<and> take (length label) (drop 64 buf) = string_bytes label
        \<and> buf ! (64 + length label) = 0x00
        \<and> drop (64 + length label + 1) buf = toBeSigned"
proof (cases "context")
  case Server
  then show ?thesis
    by (simp add: prepareSignData_value kSigPrefixLen_def kSigPrefix_def kServerLabel_def
        string_bytes_def nth_append)
next
  case Client
  then show ?thesis
    by (simp add: prepareSignData_value kSigPrefixLen_def kSigPrefix_def kClientLabel_def
        string_bytes_def nth_append)
qed

text \<open>
  The server side on a 32-byte digest: 130 bytes, the label in ASCII at offsets 64 to 96,
  the separator at offset 97.
\<close>

theorem prepareSignData_layout_witness:
  "\<exists>buf. prepareSignData Server (replicate 32 0xAB) = Return buf
     \<and> length buf = 130
     \<and> take 64 buf = replicate 64 0x20
     \<and> take 33 (drop 64 buf) =
         [84, 76, 83, 32, 49, 46, 51, 44, 32, 115, 101, 114, 118, 101, 114, 32, 67,
          101, 114, 116, 105, 102, 105, 99, 97, 116, 101, 86, 101, 114, 105, 102, 121]
     \<and> buf ! 97 = 0
     \<and> drop 98 buf = replicate 32 0xAB"
proof -
  have n: "length ''TLS 1.3, server CertificateVerify'' = 33"
    by simp
  show ?thesis
    using prepareSignData_layout [of Server "replicate 32 0xAB"]
    unfolding Let_def CertificateVerifyContext.case n
    by (simp add: string_bytes_def)
qed

text \<open>
  Claim C2. For every byte range \<open>toBeSigned\<close>, the server context and the client context
  never give the same buffer.
\<close>

theorem prepareSignData_sides_differ:
  "prepareSignData Server toBeSigned \<noteq> prepareSignData Client toBeSigned"
  by (simp add: prepareSignData_value kServerLabel_def kClientLabel_def string_bytes_def)

theorem prepareSignData_sides_differ_witness:
  "prepareSignData Server [] \<noteq> prepareSignData Client []
   \<and> prepareSignData Server [0xDE, 0xAD] \<noteq> prepareSignData Client [0xDE, 0xAD]"
  using prepareSignData_sides_differ [of "[]"] prepareSignData_sides_differ [of "[0xDE, 0xAD]"]
  by simp

section \<open>The certificate message\<close>

text \<open>
  What the loop body does with one certificate: the two checks of the returned length, and
  the write of the encoding into a buffer of the capacity the first call announced.
\<close>

lemma getCertMessage_entry_cases:
  "getCertMessage_entry L cert =
     (if i2d_X509_len L cert < 0 then Throw (runtime_error ''Error computing length'')
      else case i2d_X509_out L cert of
             None \<Rightarrow> Throw (runtime_error ''Error converting cert to DER'')
           | Some written \<Rightarrow>
               if length written \<le> nat (i2d_X509_len L cert)
               then Return \<lparr>cert_data = written, extensions = []\<rparr>
               else Undefined)"
proof (cases "i2d_X509_len L cert < 0")
  case True
  then show ?thesis
    by (simp add: getCertMessage_entry_def)
next
  case nonneg: False
  show ?thesis
  proof (cases "i2d_X509_out L cert")
    case None
    with nonneg show ?thesis
      by (simp add: getCertMessage_entry_def)
  next
    case (Some written)
    define k where "k = nat (i2d_X509_len L cert)"
    show ?thesis
    proof (cases "length written \<le> k")
      case fits: True
      define b where "b = (IOBuf_create k)\<lparr>storage :=
          [] @ map Some written @ replicate (k - length written) None\<rparr>"
      have w: "memcpy_at (IOBuf_create k) 0 written = Return b"
        unfolding b_def
        by (rule memcpy_at_fresh) (simp_all add: IOBuf_create_def fits)
      have a: "IOBuf_append (length written) b = Return (b\<lparr>len := length written\<rparr>)"
        using fits by (simp add: IOBuf_append_def b_def IOBuf_create_def)
      have r: "IOBuf_bytes (b\<lparr>len := length written\<rparr>) = Return written"
        by (rule IOBuf_bytes_written [where rest = "replicate (k - length written) None"])
          (simp_all add: b_def)
      from nonneg Some fits show ?thesis
        by (simp add: getCertMessage_entry_def Let_def k_def [symmetric] w a r)
    next
      case False
      with nonneg Some show ?thesis
        by (simp add: getCertMessage_entry_def Let_def k_def [symmetric] memcpy_at_def
            IOBuf_create_def)
    qed
  qed
qed

lemma getCertMessage_loop_encodes:
  "\<forall>c\<in>set certs. 0 \<le> i2d_X509_len L c \<and> i2d_X509_out L c = Some (der c)
       \<and> length (der c) \<le> nat (i2d_X509_len L c) \<Longrightarrow>
   getCertMessage_loop L certs entries
     = Return (entries @ map (\<lambda>c. \<lparr>cert_data = der c, extensions = []\<rparr>) certs)"
  by (induction certs arbitrary: entries) (simp_all add: getCertMessage_entry_cases)

lemma getCertMessage_loop_Return:
  "getCertMessage_loop L certs entries = Return es \<Longrightarrow>
   \<forall>c\<in>set certs. 0 \<le> i2d_X509_len L c \<and> i2d_X509_out L c \<noteq> None"
proof (induction certs arbitrary: entries)
  case Nil
  then show ?case by simp
next
  case (Cons c rest)
  from Cons.prems obtain e where
    e: "getCertMessage_entry L c = Return e" and
    r: "getCertMessage_loop L rest (entries @ [e]) = Return es"
    by (auto split: result.splits)
  from e have "0 \<le> i2d_X509_len L c \<and> i2d_X509_out L c \<noteq> None"
    by (auto simp: getCertMessage_entry_cases split: if_splits option.splits)
  with Cons.IH [OF r] show ?case by simp
qed

lemma getCertMessage_loop_fails:
  "\<forall>c\<in>set certs. \<forall>d. 0 \<le> i2d_X509_len L c \<longrightarrow> i2d_X509_out L c = Some d
       \<longrightarrow> length d \<le> nat (i2d_X509_len L c) \<Longrightarrow>
   \<exists>c\<in>set certs. i2d_X509_len L c < 0 \<or> i2d_X509_out L c = None \<Longrightarrow>
   getCertMessage_loop L certs entries = Throw (runtime_error ''Error computing length'')
   \<or> getCertMessage_loop L certs entries = Throw (runtime_error ''Error converting cert to DER'')"
proof (induction certs arbitrary: entries)
  case Nil
  then show ?case by simp
next
  case (Cons c rest)
  show ?case
  proof (cases "i2d_X509_len L c < 0 \<or> i2d_X509_out L c = None")
    case True
    then show ?thesis
      by (auto simp: getCertMessage_entry_cases)
  next
    case False
    then obtain d where d: "0 \<le> i2d_X509_len L c" "i2d_X509_out L c = Some d"
      by auto
    with Cons.prems(1) have "length d \<le> nat (i2d_X509_len L c)"
      by simp
    with d have e: "getCertMessage_entry L c = Return \<lparr>cert_data = d, extensions = []\<rparr>"
      by (simp add: getCertMessage_entry_cases)
    from False Cons.prems(2) have bad: "\<exists>c\<in>set rest. i2d_X509_len L c < 0 \<or> i2d_X509_out L c = None"
      by auto
    from Cons.prems(1) have ok: "\<forall>c\<in>set rest. \<forall>d. 0 \<le> i2d_X509_len L c \<longrightarrow> i2d_X509_out L c = Some d
       \<longrightarrow> length d \<le> nat (i2d_X509_len L c)"
      by simp
    from Cons.IH [OF ok bad, of "entries @ [\<lparr>cert_data = d, extensions = []\<rparr>]"] e
    show ?thesis by simp
  qed
qed

text \<open>
  Claim C3. When every certificate of the input sequence encodes (both calls of the encoder
  return a length that is not negative, and the encoding \<open>der c\<close> fits the buffer whose
  size the first call gave; OpenSSL returns the same length from both calls),
  \<open>getCertMessage\<close> returns a message whose \<open>certificate_list\<close> has as many entries as
  the input, entry \<open>i\<close> holding the encoding of certificate \<open>i\<close> and no extension, and
  whose \<open>certificate_request_context\<close> is the buffer it was given.
\<close>

theorem getCertMessage_preserves_chain:
  assumes "\<forall>c\<in>set certs. 0 \<le> i2d_X509_len L c \<and> i2d_X509_out L c = Some (der c)
             \<and> length (der c) \<le> nat (i2d_X509_len L c)"
  shows "\<exists>msg. getCertMessage L certs certificateRequestContext = Return msg
           \<and> length (certificate_list msg) = length certs
           \<and> (\<forall>i<length certs.
                 cert_data (certificate_list msg ! i) = der (certs ! i)
                 \<and> extensions (certificate_list msg ! i) = [])
           \<and> certificate_request_context msg = certificateRequestContext"
  using getCertMessage_loop_encodes [OF assms, of "[]"]
  by (simp add: getCertMessage_def)

text \<open>Three certificates of the small library, in an order that is not sorted.\<close>

theorem getCertMessage_preserves_chain_witness:
  "\<exists>msg. getCertMessage toy_ssl [4, 2, 3] [9, 9] = Return msg
     \<and> length (certificate_list msg) = 3
     \<and> cert_data (certificate_list msg ! 0) = [4, 0]
     \<and> cert_data (certificate_list msg ! 1) = [2, 0]
     \<and> cert_data (certificate_list msg ! 2) = [3, 0]
     \<and> extensions (certificate_list msg ! 0) = []
     \<and> extensions (certificate_list msg ! 1) = []
     \<and> extensions (certificate_list msg ! 2) = []
     \<and> certificate_request_context msg = [9, 9]"
proof -
  have h: "\<forall>c\<in>set [4, 2, 3 :: nat]. 0 \<le> i2d_X509_len toy_ssl c
      \<and> i2d_X509_out toy_ssl c = Some [of_nat c, 0]
      \<and> length [of_nat c :: byte, 0] \<le> nat (i2d_X509_len toy_ssl c)"
    by (simp add: toy_ssl_def)
  from getCertMessage_preserves_chain [of "[4, 2, 3]" toy_ssl "\<lambda>c. [of_nat c, 0]" "[9, 9]", OF h]
  obtain msg where m: "getCertMessage toy_ssl [4, 2, 3] [9, 9] = Return msg"
    "length (certificate_list msg) = 3"
    "\<forall>i<3. cert_data (certificate_list msg ! i) = [of_nat ([4, 2, 3 :: nat] ! i), 0]
        \<and> extensions (certificate_list msg ! i) = []"
    "certificate_request_context msg = [9, 9]"
    by auto
  from m(3) have "cert_data (certificate_list msg ! 0) = [4, 0]"
    "cert_data (certificate_list msg ! 1) = [2, 0]"
    "cert_data (certificate_list msg ! 2) = [3, 0]"
    "extensions (certificate_list msg ! 0) = []"
    "extensions (certificate_list msg ! 1) = []"
    "extensions (certificate_list msg ! 2) = []"
    by (simp_all add: nth_Cons')
  with m show ?thesis by blast
qed

text \<open>
  Claim C4. If the encoder reports a negative length for some certificate of the sequence,
  at the length computation or at the encoding, \<open>getCertMessage\<close> throws one of its two
  encoding errors (\<^verbatim>\<open>Error computing length\<close>, \<^verbatim>\<open>Error converting cert to DER\<close>),
  and a thrown exception carries no message; it returns a message only when every
  certificate encodes. The hypothesis is the encoder's contract: where both calls succeed,
  the second writes no more bytes than the first announced.
\<close>

theorem getCertMessage_encoding_failure:
  assumes "\<forall>c\<in>set certs. \<forall>d. 0 \<le> i2d_X509_len L c \<longrightarrow> i2d_X509_out L c = Some d
             \<longrightarrow> length d \<le> nat (i2d_X509_len L c)"
  shows "((\<exists>c\<in>set certs. i2d_X509_len L c < 0 \<or> i2d_X509_out L c = None) \<longrightarrow>
            getCertMessage L certs certificateRequestContext
              = Throw (runtime_error ''Error computing length'')
          \<or> getCertMessage L certs certificateRequestContext
              = Throw (runtime_error ''Error converting cert to DER''))
       \<and> ((\<exists>msg. getCertMessage L certs certificateRequestContext = Return msg) \<longleftrightarrow>
            (\<forall>c\<in>set certs. 0 \<le> i2d_X509_len L c \<and> i2d_X509_out L c \<noteq> None))"
proof (intro conjI impI iffI)
  assume "\<exists>c\<in>set certs. i2d_X509_len L c < 0 \<or> i2d_X509_out L c = None"
  from getCertMessage_loop_fails [OF assms this, of "[]"]
  show "getCertMessage L certs certificateRequestContext
              = Throw (runtime_error ''Error computing length'')
          \<or> getCertMessage L certs certificateRequestContext
              = Throw (runtime_error ''Error converting cert to DER'')"
    by (auto simp: getCertMessage_def)
next
  assume "\<exists>msg. getCertMessage L certs certificateRequestContext = Return msg"
  then obtain es where "getCertMessage_loop L certs [] = Return es"
    by (auto simp: getCertMessage_def and_then_def split: result.splits)
  then show "\<forall>c\<in>set certs. 0 \<le> i2d_X509_len L c \<and> i2d_X509_out L c \<noteq> None"
    by (rule getCertMessage_loop_Return)
next
  assume all: "\<forall>c\<in>set certs. 0 \<le> i2d_X509_len L c \<and> i2d_X509_out L c \<noteq> None"
  have "\<forall>c\<in>set certs. 0 \<le> i2d_X509_len L c
      \<and> i2d_X509_out L c = Some (the (i2d_X509_out L c))
      \<and> length (the (i2d_X509_out L c)) \<le> nat (i2d_X509_len L c)"
    using all assms by auto
  from getCertMessage_loop_encodes [OF this, of "[]"]
  show "\<exists>msg. getCertMessage L certs certificateRequestContext = Return msg"
    by (simp add: getCertMessage_def)
qed

text \<open>
  A failure at the length (certificate 0), a failure at the encoding (certificate 9), each
  after a certificate that encoded, and a sequence that encodes.
\<close>

theorem getCertMessage_encoding_failure_witness:
  "getCertMessage toy_ssl [2, 0, 4] [9, 9] = Throw (runtime_error ''Error computing length'')
   \<and> getCertMessage toy_ssl [2, 9, 4] [9, 9]
       = Throw (runtime_error ''Error converting cert to DER'')
   \<and> (\<exists>msg. getCertMessage toy_ssl [2, 3, 4] [9, 9] = Return msg)"
proof -
  have c: "\<forall>c\<in>set cs. \<forall>d. 0 \<le> i2d_X509_len toy_ssl c \<longrightarrow> i2d_X509_out toy_ssl c = Some d
             \<longrightarrow> length d \<le> nat (i2d_X509_len toy_ssl c)" for cs
    by (auto simp: toy_ssl_def split: if_splits)
  have a: "getCertMessage toy_ssl [2, 0, 4] [9, 9] \<noteq> Throw (runtime_error ''Error converting cert to DER'')"
    by (simp add: getCertMessage_def getCertMessage_entry_cases toy_ssl_def)
  have b: "getCertMessage toy_ssl [2, 9, 4] [9, 9] \<noteq> Throw (runtime_error ''Error computing length'')"
    by (simp add: getCertMessage_def getCertMessage_entry_cases toy_ssl_def)
  from getCertMessage_encoding_failure [OF c, of "[2, 0, 4]" "[9, 9]"] a
  have 1: "getCertMessage toy_ssl [2, 0, 4] [9, 9] = Throw (runtime_error ''Error computing length'')"
    by (simp add: toy_ssl_def)
  from getCertMessage_encoding_failure [OF c, of "[2, 9, 4]" "[9, 9]"] b
  have 2: "getCertMessage toy_ssl [2, 9, 4] [9, 9] = Throw (runtime_error ''Error converting cert to DER'')"
    by (simp add: toy_ssl_def)
  from getCertMessage_encoding_failure [OF c, of "[2, 3, 4]" "[9, 9]"]
  have 3: "\<exists>msg. getCertMessage toy_ssl [2, 3, 4] [9, 9] = Return msg"
    by (simp add: toy_ssl_def)
  from 1 2 3 show ?thesis by simp
qed

text \<open>
  Claim C10. On an empty certificate sequence \<open>getCertMessage\<close> does not fail: it returns
  a message whose \<open>certificate_list\<close> is empty and whose \<open>certificate_request_context\<close>
  is the buffer it was given.
\<close>

theorem getCertMessage_empty:
  "getCertMessage L [] certificateRequestContext
     = Return \<lparr>certificate_request_context = certificateRequestContext,
               certificate_list = []\<rparr>"
  by (simp add: getCertMessage_def)

theorem getCertMessage_empty_witness:
  "getCertMessage toy_ssl [] [7, 7, 7]
     = Return \<lparr>certificate_request_context = [7, 7, 7], certificate_list = []\<rparr>"
  using getCertMessage_empty [of toy_ssl "[7, 7, 7]"] by simp

section \<open>The peer certificate\<close>

text \<open>
  Once the buffer is not empty and parses, the result of \<open>makePeerCert\<close> depends on the
  public key alone. The nested \<^verbatim>\<open>if\<close> and \<^verbatim>\<open>switch\<close> are flattened here into one
  chain of tests.
\<close>

lemma makePeerCert_parsed:
  "certData \<noteq> [] \<Longrightarrow> d2i_X509 L certData = Some (cert, consumed) \<Longrightarrow>
   snd (makePeerCert L certData) =
     (case X509_get_pubkey L cert of
        None \<Rightarrow> Throw (runtime_error ''couldn't get pubkey from peer cert'')
      | Some pubKey \<Rightarrow>
          if EVP_PKEY_id L pubKey = EVP_PKEY_RSA then Return (PeerCertImpl RSA cert)
          else if EVP_PKEY_id L pubKey = EVP_PKEY_EC
                  \<and> getCurveName L pubKey = NID_X9_62_prime256v1
               then Return (PeerCertImpl P256 cert)
          else if EVP_PKEY_id L pubKey = EVP_PKEY_EC \<and> getCurveName L pubKey = NID_secp384r1
               then Return (PeerCertImpl P384 cert)
          else if EVP_PKEY_id L pubKey = EVP_PKEY_EC \<and> getCurveName L pubKey = NID_secp521r1
               then Return (PeerCertImpl P521 cert)
          else Throw (runtime_error ''unknown peer cert type''))"
  by (simp add: makePeerCert_def Let_def split: option.splits)

lemma NID_distinct:
  "NID_X9_62_prime256v1 \<noteq> NID_secp384r1" "NID_X9_62_prime256v1 \<noteq> NID_secp521r1"
  "NID_secp384r1 \<noteq> NID_secp521r1" "EVP_PKEY_RSA \<noteq> EVP_PKEY_EC"
  "EVP_PKEY_EC \<noteq> EVP_PKEY_RSA"
  "NID_X9_62_prime256v1 \<noteq> 0" "NID_secp384r1 \<noteq> 0" "NID_secp521r1 \<noteq> 0"
  by (simp_all add: NID_X9_62_prime256v1_def NID_secp384r1_def NID_secp521r1_def
      EVP_PKEY_RSA_def EVP_PKEY_EC_def)

text \<open>The small library, call by call.\<close>

lemma toy_parse:
  "d2i_X509 toy_ssl (a # b # rest) = Some (unat a, 2)"
  "d2i_X509 toy_ssl [a] = None"
  by (simp_all add: toy_ssl_def)

lemma toy_keys:
  "X509_get_pubkey toy_ssl 8 = None"
  "X509_get_pubkey toy_ssl 2 = Some 2"
  "X509_get_pubkey toy_ssl 3 = Some 3"
  "X509_get_pubkey toy_ssl 4 = Some 4"
  "X509_get_pubkey toy_ssl 5 = Some 5"
  "X509_get_pubkey toy_ssl 6 = Some 6"
  "X509_get_pubkey toy_ssl 7 = Some 7"
  "X509_get_pubkey toy_ssl 10 = Some 10"
  "EVP_PKEY_id toy_ssl 2 = EVP_PKEY_RSA"
  "EVP_PKEY_id toy_ssl 3 = EVP_PKEY_EC"
  "EVP_PKEY_id toy_ssl 4 = EVP_PKEY_EC"
  "EVP_PKEY_id toy_ssl 5 = EVP_PKEY_EC"
  "EVP_PKEY_id toy_ssl 6 = EVP_PKEY_EC"
  "EVP_PKEY_id toy_ssl 7 = EVP_PKEY_EC"
  "EVP_PKEY_id toy_ssl 10 = 1087"
  "getCurveName toy_ssl 3 = 0"
  "getCurveName toy_ssl 4 = NID_X9_62_prime256v1"
  "getCurveName toy_ssl 5 = NID_secp384r1"
  "getCurveName toy_ssl 6 = NID_secp521r1"
  "getCurveName toy_ssl 7 = 409"
  by (simp_all add: toy_ssl_def getCurveName_def EVP_PKEY_RSA_def EVP_PKEY_EC_def
      NID_X9_62_prime256v1_def NID_secp384r1_def NID_secp521r1_def)

text \<open>
  Claim C5. \<open>makePeerCert\<close> throws \<^verbatim>\<open>empty peer cert\<close> (EmptyInput) on an empty buffer;
  \<^verbatim>\<open>could not read cert\<close> (DecodeError) when the buffer is not empty and does not parse
  as a certificate from its first byte; \<^verbatim>\<open>couldn't get pubkey from peer cert\<close>
  (MissingPublicKey) when a certificate parses and has no public key;
  \<^verbatim>\<open>unknown peer cert type\<close> (UnsupportedKeyType) when the key is neither an RSA key nor
  an EC key on one of the three curves; and in every other case it returns a \<open>PeerCert\<close>
  that holds the parsed certificate. The cases are tested in this order, each one under
  the failure of the ones before.
\<close>

theorem makePeerCert_outcomes:
  "(certData = [] \<longrightarrow>
      snd (makePeerCert L certData) = Throw (runtime_error ''empty peer cert''))
   \<and> (certData \<noteq> [] \<and> d2i_X509 L certData = None \<longrightarrow>
      snd (makePeerCert L certData) = Throw (runtime_error ''could not read cert''))
   \<and> (certData \<noteq> [] \<and> d2i_X509 L certData = Some (cert, consumed)
        \<and> X509_get_pubkey L cert = None \<longrightarrow>
      snd (makePeerCert L certData)
        = Throw (runtime_error ''couldn't get pubkey from peer cert''))
   \<and> (certData \<noteq> [] \<and> d2i_X509 L certData = Some (cert, consumed)
        \<and> X509_get_pubkey L cert = Some pubKey
        \<and> EVP_PKEY_id L pubKey \<noteq> EVP_PKEY_RSA
        \<and> \<not> (EVP_PKEY_id L pubKey = EVP_PKEY_EC
               \<and> getCurveName L pubKey
                    \<in> {NID_X9_62_prime256v1, NID_secp384r1, NID_secp521r1}) \<longrightarrow>
      snd (makePeerCert L certData) = Throw (runtime_error ''unknown peer cert type''))
   \<and> (certData \<noteq> [] \<and> d2i_X509 L certData = Some (cert, consumed)
        \<and> X509_get_pubkey L cert = Some pubKey
        \<and> (EVP_PKEY_id L pubKey = EVP_PKEY_RSA
             \<or> EVP_PKEY_id L pubKey = EVP_PKEY_EC
               \<and> getCurveName L pubKey
                    \<in> {NID_X9_62_prime256v1, NID_secp384r1, NID_secp521r1}) \<longrightarrow>
      (\<exists>keyType. snd (makePeerCert L certData) = Return (PeerCertImpl keyType cert)))"
proof (intro conjI impI)
  assume "certData = []"
  then show "snd (makePeerCert L certData) = Throw (runtime_error ''empty peer cert'')"
    by (simp add: makePeerCert_def)
next
  assume "certData \<noteq> [] \<and> d2i_X509 L certData = None"
  then show "snd (makePeerCert L certData) = Throw (runtime_error ''could not read cert'')"
    by (simp add: makePeerCert_def)
next
  assume "certData \<noteq> [] \<and> d2i_X509 L certData = Some (cert, consumed)
        \<and> X509_get_pubkey L cert = None"
  then show "snd (makePeerCert L certData)
        = Throw (runtime_error ''couldn't get pubkey from peer cert'')"
    by (simp add: makePeerCert_parsed)
next
  assume "certData \<noteq> [] \<and> d2i_X509 L certData = Some (cert, consumed)
        \<and> X509_get_pubkey L cert = Some pubKey
        \<and> EVP_PKEY_id L pubKey \<noteq> EVP_PKEY_RSA
        \<and> \<not> (EVP_PKEY_id L pubKey = EVP_PKEY_EC
               \<and> getCurveName L pubKey
                    \<in> {NID_X9_62_prime256v1, NID_secp384r1, NID_secp521r1})"
  then show "snd (makePeerCert L certData) = Throw (runtime_error ''unknown peer cert type'')"
    by (auto simp: makePeerCert_parsed)
next
  assume "certData \<noteq> [] \<and> d2i_X509 L certData = Some (cert, consumed)
        \<and> X509_get_pubkey L cert = Some pubKey
        \<and> (EVP_PKEY_id L pubKey = EVP_PKEY_RSA
             \<or> EVP_PKEY_id L pubKey = EVP_PKEY_EC
               \<and> getCurveName L pubKey
                    \<in> {NID_X9_62_prime256v1, NID_secp384r1, NID_secp521r1})"
  then show "\<exists>keyType. snd (makePeerCert L certData) = Return (PeerCertImpl keyType cert)"
    by (auto simp: makePeerCert_parsed)
qed

text \<open>One buffer for each of the four errors (two for the last), and two that succeed.\<close>

theorem makePeerCert_outcomes_witness:
  "snd (makePeerCert toy_ssl []) = Throw (runtime_error ''empty peer cert'')
   \<and> snd (makePeerCert toy_ssl [2]) = Throw (runtime_error ''could not read cert'')
   \<and> snd (makePeerCert toy_ssl [8, 0])
       = Throw (runtime_error ''couldn't get pubkey from peer cert'')
   \<and> snd (makePeerCert toy_ssl [10, 0]) = Throw (runtime_error ''unknown peer cert type'')
   \<and> snd (makePeerCert toy_ssl [7, 0]) = Throw (runtime_error ''unknown peer cert type'')
   \<and> (\<exists>keyType. snd (makePeerCert toy_ssl [2, 0]) = Return (PeerCertImpl keyType 2))
   \<and> (\<exists>keyType. snd (makePeerCert toy_ssl [5, 0]) = Return (PeerCertImpl keyType 5))"
proof -
  have 1: "snd (makePeerCert toy_ssl []) = Throw (runtime_error ''empty peer cert'')"
    using makePeerCert_outcomes [of "[]" toy_ssl] by simp
  have 2: "snd (makePeerCert toy_ssl [2]) = Throw (runtime_error ''could not read cert'')"
    using makePeerCert_outcomes [of "[2]" toy_ssl] by (simp add: toy_parse)
  have 3: "snd (makePeerCert toy_ssl [8, 0])
       = Throw (runtime_error ''couldn't get pubkey from peer cert'')"
    using makePeerCert_outcomes [of "[8, 0]" toy_ssl 8 2] by (simp add: toy_parse toy_keys)
  have 4: "snd (makePeerCert toy_ssl [10, 0]) = Throw (runtime_error ''unknown peer cert type'')"
    using makePeerCert_outcomes [of "[10, 0]" toy_ssl 10 2 10]
    by (simp add: toy_parse toy_keys EVP_PKEY_RSA_def EVP_PKEY_EC_def)
  have 5: "snd (makePeerCert toy_ssl [7, 0]) = Throw (runtime_error ''unknown peer cert type'')"
    using makePeerCert_outcomes [of "[7, 0]" toy_ssl 7 2 7]
    by (simp add: toy_parse toy_keys NID_X9_62_prime256v1_def NID_secp384r1_def
        NID_secp521r1_def EVP_PKEY_RSA_def EVP_PKEY_EC_def)
  have 6: "\<exists>keyType. snd (makePeerCert toy_ssl [2, 0]) = Return (PeerCertImpl keyType 2)"
    using makePeerCert_outcomes [of "[2, 0]" toy_ssl 2 2 2] by (simp add: toy_parse toy_keys)
  have 7: "\<exists>keyType. snd (makePeerCert toy_ssl [5, 0]) = Return (PeerCertImpl keyType 5)"
    using makePeerCert_outcomes [of "[5, 0]" toy_ssl 5 2 5] by (simp add: toy_parse toy_keys)
  from 1 2 3 4 5 6 7 show ?thesis by simp
qed

text \<open>
  Claim C6. For a public key that was extracted, the key type follows from the key alone
  and is unique: \<open>RSA\<close> exactly for an RSA key, whatever else the key holds; \<open>P256\<close>,
  \<open>P384\<close>, \<open>P521\<close> exactly for an EC key whose named curve is P-256
  (\<^verbatim>\<open>NID_X9_62_prime256v1\<close>), P-384 (\<^verbatim>\<open>NID_secp384r1\<close>), P-521
  (\<^verbatim>\<open>NID_secp521r1\<close>); and \<^verbatim>\<open>unknown peer cert type\<close> (UnsupportedKeyType) exactly for
  every other key: an EC key on another curve, an EC key with no named curve (curve
  name 0, which is also what \<open>getCurveName\<close> gives when there is no EC key behind the
  handle), a key of another family. No key gets two tags.
\<close>

theorem makePeerCert_key_classification:
  assumes "certData \<noteq> []"
    and "d2i_X509 L certData = Some (cert, consumed)"
    and "X509_get_pubkey L cert = Some pubKey"
  shows "(snd (makePeerCert L certData) = Return (PeerCertImpl RSA cert)
            \<longleftrightarrow> EVP_PKEY_id L pubKey = EVP_PKEY_RSA)
       \<and> (snd (makePeerCert L certData) = Return (PeerCertImpl P256 cert)
            \<longleftrightarrow> EVP_PKEY_id L pubKey = EVP_PKEY_EC
                \<and> getCurveName L pubKey = NID_X9_62_prime256v1)
       \<and> (snd (makePeerCert L certData) = Return (PeerCertImpl P384 cert)
            \<longleftrightarrow> EVP_PKEY_id L pubKey = EVP_PKEY_EC \<and> getCurveName L pubKey = NID_secp384r1)
       \<and> (snd (makePeerCert L certData) = Return (PeerCertImpl P521 cert)
            \<longleftrightarrow> EVP_PKEY_id L pubKey = EVP_PKEY_EC \<and> getCurveName L pubKey = NID_secp521r1)
       \<and> (snd (makePeerCert L certData) = Throw (runtime_error ''unknown peer cert type'')
            \<longleftrightarrow> EVP_PKEY_id L pubKey \<noteq> EVP_PKEY_RSA
                \<and> \<not> (EVP_PKEY_id L pubKey = EVP_PKEY_EC
                       \<and> getCurveName L pubKey
                            \<in> {NID_X9_62_prime256v1, NID_secp384r1, NID_secp521r1}))
       \<and> (EVP_PKEY_get0_EC_KEY L pubKey = None \<longrightarrow> getCurveName L pubKey = 0)
       \<and> (EVP_PKEY_id L pubKey = EVP_PKEY_EC \<and> getCurveName L pubKey = 0 \<longrightarrow>
            snd (makePeerCert L certData) = Throw (runtime_error ''unknown peer cert type''))
       \<and> ((\<exists>!keyType. snd (makePeerCert L certData) = Return (PeerCertImpl keyType cert))
            \<or> snd (makePeerCert L certData) = Throw (runtime_error ''unknown peer cert type''))"
proof -
  note r = makePeerCert_parsed [OF assms(1,2), unfolded assms(3) option.case]
  have rsa: "snd (makePeerCert L certData) = Return (PeerCertImpl RSA cert)
            \<longleftrightarrow> EVP_PKEY_id L pubKey = EVP_PKEY_RSA"
    by (simp add: r NID_distinct)
  have p256: "snd (makePeerCert L certData) = Return (PeerCertImpl P256 cert)
            \<longleftrightarrow> EVP_PKEY_id L pubKey = EVP_PKEY_EC
                \<and> getCurveName L pubKey = NID_X9_62_prime256v1"
    using NID_distinct by (auto simp: r)
  have p384: "snd (makePeerCert L certData) = Return (PeerCertImpl P384 cert)
            \<longleftrightarrow> EVP_PKEY_id L pubKey = EVP_PKEY_EC \<and> getCurveName L pubKey = NID_secp384r1"
    using NID_distinct by (auto simp: r)
  have p521: "snd (makePeerCert L certData) = Return (PeerCertImpl P521 cert)
            \<longleftrightarrow> EVP_PKEY_id L pubKey = EVP_PKEY_EC \<and> getCurveName L pubKey = NID_secp521r1"
    using NID_distinct by (auto simp: r)
  have unk: "snd (makePeerCert L certData) = Throw (runtime_error ''unknown peer cert type'')
            \<longleftrightarrow> EVP_PKEY_id L pubKey \<noteq> EVP_PKEY_RSA
                \<and> \<not> (EVP_PKEY_id L pubKey = EVP_PKEY_EC
                       \<and> getCurveName L pubKey
                            \<in> {NID_X9_62_prime256v1, NID_secp384r1, NID_secp521r1})"
    by (auto simp: r)
  have nokey: "EVP_PKEY_get0_EC_KEY L pubKey = None \<longrightarrow> getCurveName L pubKey = 0"
    by (simp add: getCurveName_def)
  have unnamed: "EVP_PKEY_id L pubKey = EVP_PKEY_EC \<and> getCurveName L pubKey = 0 \<longrightarrow>
            snd (makePeerCert L certData) = Throw (runtime_error ''unknown peer cert type'')"
    using NID_distinct by (auto simp: r)
  have one: "(\<exists>!keyType. snd (makePeerCert L certData) = Return (PeerCertImpl keyType cert))
            \<or> snd (makePeerCert L certData) = Throw (runtime_error ''unknown peer cert type'')"
    by (auto simp: r)
  from rsa p256 p384 p521 unk nokey unnamed one show ?thesis
    by blast
qed

text \<open>One certificate for each tag and one for each way of being unsupported.\<close>

theorem makePeerCert_key_classification_witness:
  "snd (makePeerCert toy_ssl [2, 0]) = Return (PeerCertImpl RSA 2)
   \<and> snd (makePeerCert toy_ssl [4, 0]) = Return (PeerCertImpl P256 4)
   \<and> snd (makePeerCert toy_ssl [5, 0]) = Return (PeerCertImpl P384 5)
   \<and> snd (makePeerCert toy_ssl [6, 0]) = Return (PeerCertImpl P521 6)
   \<and> snd (makePeerCert toy_ssl [7, 0]) = Throw (runtime_error ''unknown peer cert type'')
   \<and> snd (makePeerCert toy_ssl [3, 0]) = Throw (runtime_error ''unknown peer cert type'')
   \<and> snd (makePeerCert toy_ssl [10, 0]) = Throw (runtime_error ''unknown peer cert type'')"
proof -
  have 1: "snd (makePeerCert toy_ssl [2, 0]) = Return (PeerCertImpl RSA 2)"
    using makePeerCert_key_classification [of "[2, 0]" toy_ssl 2 2 2]
    by (simp add: toy_parse toy_keys)
  have 2: "snd (makePeerCert toy_ssl [4, 0]) = Return (PeerCertImpl P256 4)"
    using makePeerCert_key_classification [of "[4, 0]" toy_ssl 4 2 4]
    by (simp add: toy_parse toy_keys)
  have 3: "snd (makePeerCert toy_ssl [5, 0]) = Return (PeerCertImpl P384 5)"
    using makePeerCert_key_classification [of "[5, 0]" toy_ssl 5 2 5]
    by (simp add: toy_parse toy_keys)
  have 4: "snd (makePeerCert toy_ssl [6, 0]) = Return (PeerCertImpl P521 6)"
    using makePeerCert_key_classification [of "[6, 0]" toy_ssl 6 2 6]
    by (simp add: toy_parse toy_keys)
  have 5: "snd (makePeerCert toy_ssl [7, 0]) = Throw (runtime_error ''unknown peer cert type'')"
    using makePeerCert_key_classification [of "[7, 0]" toy_ssl 7 2 7]
    by (simp add: toy_parse toy_keys NID_X9_62_prime256v1_def NID_secp384r1_def
        NID_secp521r1_def EVP_PKEY_RSA_def EVP_PKEY_EC_def)
  have 6: "snd (makePeerCert toy_ssl [3, 0]) = Throw (runtime_error ''unknown peer cert type'')"
    using makePeerCert_key_classification [of "[3, 0]" toy_ssl 3 2 3]
    by (simp add: toy_parse toy_keys)
  have 7: "snd (makePeerCert toy_ssl [10, 0]) = Throw (runtime_error ''unknown peer cert type'')"
    using makePeerCert_key_classification [of "[10, 0]" toy_ssl 10 2 10]
    by (simp add: toy_parse toy_keys EVP_PKEY_RSA_def EVP_PKEY_EC_def)
  from 1 2 3 4 5 6 7 show ?thesis by simp
qed

text \<open>
  Claim C7. When the buffer parses as a certificate and the parse stops before the end of
  the buffer, and the bytes it consumed parse as the same certificate by themselves, the
  trailing bytes are not an error: \<open>makePeerCert\<close> gives for the buffer what it gives for
  the consumed prefix alone, so it returns the same \<open>PeerCert\<close> whenever the prefix yields
  one, and it throws neither \<^verbatim>\<open>empty peer cert\<close> nor \<^verbatim>\<open>could not read cert\<close>. The
  only trace of the trailing bytes is one line in the verbose log, which the prefix alone
  does not produce. (A certificate takes up at least one byte.)
\<close>

theorem makePeerCert_trailing_bytes:
  assumes "d2i_X509 L certData = Some (cert, consumed)"
    and "consumed < length certData"
    and "0 < consumed"
    and "d2i_X509 L (take consumed certData) = Some (cert, consumed)"
  shows "snd (makePeerCert L certData) = snd (makePeerCert L (take consumed certData))
       \<and> (\<forall>peer. snd (makePeerCert L (take consumed certData)) = Return peer
             \<longrightarrow> snd (makePeerCert L certData) = Return peer)
       \<and> snd (makePeerCert L certData) \<noteq> Throw (runtime_error ''empty peer cert'')
       \<and> snd (makePeerCert L certData) \<noteq> Throw (runtime_error ''could not read cert'')
       \<and> fst (makePeerCert L certData) = [(1, ''Did not read to end of certificate'')]
       \<and> fst (makePeerCert L (take consumed certData)) = []"
proof -
  from assms(2) have ne: "certData \<noteq> []"
    by auto
  from assms(2,3) have pne: "take consumed certData \<noteq> []"
    by auto
  have same: "snd (makePeerCert L certData) = snd (makePeerCert L (take consumed certData))"
    by (simp add: makePeerCert_parsed [OF ne assms(1)] makePeerCert_parsed [OF pne assms(4)])
  have err: "snd (makePeerCert L certData) \<noteq> Throw (runtime_error ''empty peer cert'')"
    "snd (makePeerCert L certData) \<noteq> Throw (runtime_error ''could not read cert'')"
    by (simp_all add: makePeerCert_parsed [OF ne assms(1)] split: option.splits)
  have log: "fst (makePeerCert L certData) = [(1, ''Did not read to end of certificate'')]"
    using ne assms(1,2) by (simp add: makePeerCert_def)
  have plog: "fst (makePeerCert L (take consumed certData)) = []"
    using pne assms(2,4) by (simp add: makePeerCert_def)
  from same err log plog show ?thesis
    by simp
qed

text \<open>A certificate on P-256 followed by two bytes that belong to nothing.\<close>

theorem makePeerCert_trailing_bytes_witness:
  "d2i_X509 toy_ssl [4, 0, 7, 7] = Some (4, 2)
   \<and> d2i_X509 toy_ssl (take 2 [4, 0, 7, 7]) = Some (4, 2)
   \<and> snd (makePeerCert toy_ssl [4, 0, 7, 7]) = snd (makePeerCert toy_ssl [4, 0])
   \<and> snd (makePeerCert toy_ssl [4, 0, 7, 7]) = Return (PeerCertImpl P256 4)
   \<and> fst (makePeerCert toy_ssl [4, 0, 7, 7]) = [(1, ''Did not read to end of certificate'')]
   \<and> fst (makePeerCert toy_ssl [4, 0]) = []"
proof -
  have p: "d2i_X509 toy_ssl [4, 0, 7, 7] = Some (4, 2)"
    "d2i_X509 toy_ssl (take 2 [4, 0, 7, 7]) = Some (4, 2)"
    by (simp_all add: toy_parse)
  have v: "snd (makePeerCert toy_ssl [4, 0]) = Return (PeerCertImpl P256 4)"
    by (simp add: makePeerCert_parsed [of _ _ 4 2] toy_parse toy_keys NID_distinct)
  from makePeerCert_trailing_bytes [OF p(1) _ _ p(2)] p v show ?thesis
    by simp
qed

section \<open>The self certificate\<close>

lemma toy_strings:
  "readCertsFromBuffer toy_ssl s = Inr (map of_char s)"
  "BIO_new_mem_buf toy_ssl s n = (if n < 0 \<or> n = 3 then None else Some s)"
  "PEM_read_bio_PrivateKey toy_ssl s = (if s = [] then None else Some (length s))"
  by (simp_all add: toy_ssl_def)

text \<open>
  Claim C8. \<open>makeSelfCert\<close> on the two strings throws \<^verbatim>\<open>no certificates read\<close>
  (DecodeError) when the reader recovers no certificate from the chain bytes (and the
  reader's own exception when the reader throws); with at least one certificate, it throws
  \<^verbatim>\<open>failed to create BIO\<close> or \<^verbatim>\<open>Failed to read key\<close> (KeyDecodeError) when no private
  key can be read from the key bytes; and otherwise it returns exactly what
  \<open>makeSelfCert\<close> returns on the recovered certificates and key. The chain is read first,
  so its error wins when both fail; and since the chain it hands over is never empty, this
  path never reaches the undefined \<^verbatim>\<open>front()\<close>.
\<close>

theorem makeSelfCert_data_outcomes:
  "(readCertsFromBuffer L certData = Inr [] \<longrightarrow>
      makeSelfCert_data L certData keyData = Throw (runtime_error ''no certificates read''))
   \<and> (readCertsFromBuffer L certData = Inl e \<longrightarrow>
      makeSelfCert_data L certData keyData = Throw e)
   \<and> (readCertsFromBuffer L certData = Inr certs \<and> certs \<noteq> []
        \<and> BIO_new_mem_buf L keyData (sint (word_of_nat (length keyData) :: 32 word)) = None
        \<longrightarrow>
      makeSelfCert_data L certData keyData = Throw (runtime_error ''failed to create BIO''))
   \<and> (readCertsFromBuffer L certData = Inr certs \<and> certs \<noteq> []
        \<and> BIO_new_mem_buf L keyData (sint (word_of_nat (length keyData) :: 32 word)) = Some b
        \<and> PEM_read_bio_PrivateKey L b = None \<longrightarrow>
      makeSelfCert_data L certData keyData = Throw (runtime_error ''Failed to read key''))
   \<and> (readCertsFromBuffer L certData = Inr certs \<and> certs \<noteq> []
        \<and> BIO_new_mem_buf L keyData (sint (word_of_nat (length keyData) :: 32 word)) = Some b
        \<and> PEM_read_bio_PrivateKey L b = Some key \<longrightarrow>
      makeSelfCert_data L certData keyData = makeSelfCert L certs key)
   \<and> makeSelfCert_data L certData keyData \<noteq> Undefined"
proof -
  have guarded: "makeSelfCert L cs k \<noteq> Undefined" if "cs \<noteq> []" for cs k
    using that by (simp add: makeSelfCert_def Let_def split: list.splits option.splits)
  have "makeSelfCert_data L certData keyData \<noteq> Undefined"
    by (simp add: makeSelfCert_data_def guarded split: sum.splits option.splits)
  then show ?thesis
    by (simp add: makeSelfCert_data_def)
qed

text \<open>
  No certificate (with and without a key), no memory for the key, no key in the key bytes,
  and a chain of two certificates with a key.
\<close>

theorem makeSelfCert_data_outcomes_witness:
  "makeSelfCert_data toy_ssl '''' ''k'' = Throw (runtime_error ''no certificates read'')
   \<and> makeSelfCert_data toy_ssl '''' '''' = Throw (runtime_error ''no certificates read'')
   \<and> makeSelfCert_data toy_ssl [CHR 0x05, CHR 0x02] ''key''
       = Throw (runtime_error ''failed to create BIO'')
   \<and> makeSelfCert_data toy_ssl [CHR 0x05, CHR 0x02] ''''
       = Throw (runtime_error ''Failed to read key'')
   \<and> makeSelfCert_data toy_ssl [CHR 0x05, CHR 0x02] ''k'' = makeSelfCert toy_ssl [5, 2] 1
   \<and> makeSelfCert toy_ssl [5, 2] 1 = Return (SelfCertImpl P384 1 [5, 2])"
proof -
  have 1: "makeSelfCert_data toy_ssl '''' ''k'' = Throw (runtime_error ''no certificates read'')"
    using makeSelfCert_data_outcomes [of toy_ssl "''''" "''k''"]
    by (simp add: toy_strings)
  have 2: "makeSelfCert_data toy_ssl '''' '''' = Throw (runtime_error ''no certificates read'')"
    using makeSelfCert_data_outcomes [of toy_ssl "''''" "''''"]
    by (simp add: toy_strings)
  have 3: "makeSelfCert_data toy_ssl [CHR 0x05, CHR 0x02] ''key''
       = Throw (runtime_error ''failed to create BIO'')"
    using makeSelfCert_data_outcomes [of toy_ssl "[CHR 0x05, CHR 0x02]" "''key''" _ "[5, 2]"]
    by (simp add: toy_strings)
  have 4: "makeSelfCert_data toy_ssl [CHR 0x05, CHR 0x02] ''''
       = Throw (runtime_error ''Failed to read key'')"
    using makeSelfCert_data_outcomes [of toy_ssl "[CHR 0x05, CHR 0x02]" "''''" _ "[5, 2]" "''''"]
    by (simp add: toy_strings)
  have 5: "makeSelfCert_data toy_ssl [CHR 0x05, CHR 0x02] ''k'' = makeSelfCert toy_ssl [5, 2] 1"
    using makeSelfCert_data_outcomes [of toy_ssl "[CHR 0x05, CHR 0x02]" "''k''" _ "[5, 2]"
        "''k''" 1]
    by (simp add: toy_strings)
  have 6: "makeSelfCert toy_ssl [5, 2] 1 = Return (SelfCertImpl P384 1 [5, 2])"
    by (simp add: makeSelfCert_def toy_keys NID_distinct NID_distinct [symmetric])
  from 1 2 3 4 5 6 show ?thesis by simp
qed

text \<open>
  Claim C9, which the code does not meet. The overload that takes the parsed chain
  evaluates \<^verbatim>\<open>certs.front()\<close> before anything else and has no test for an empty chain:
  on an empty vector nothing is thrown, the behaviour is undefined. The other overload
  tests \<^verbatim>\<open>certs.empty()\<close> and throws before it delegates. For a chain that is not empty
  the claim holds: \<^verbatim>\<open>Failed to read public key\<close> (MissingPublicKey) is thrown exactly
  when the first certificate has no public key.
\<close>

theorem makeSelfCert_front:
  "makeSelfCert L [] key = Undefined
   \<and> (makeSelfCert L (front # rest) key = Throw (runtime_error ''Failed to read public key'')
        \<longleftrightarrow> X509_get_pubkey L front = None)"
  by (simp add: makeSelfCert_def Let_def split: option.splits)

end
